theory Spec2Isabelle
  imports Complex_Main
begin

section \<open>Python values used by \<open>tensorrt_llm/executor/utils.py\<close>\<close>

text \<open>
  The classes that occur in the module. \<open>RequestError\<close> is declared by the module itself
  (\<open>class RequestError(RuntimeError)\<close>); \<open>Empty\<close> is \<open>queue.Empty\<close>; the others are
  Python builtins. \<open>base\<close> gives the direct base class of each (single inheritance).
\<close>

datatype pyclass =
  Object | Str | BaseException | Exception | RuntimeError | ValueError
  | AssertionError | ArithmeticError | OverflowError | Empty | RequestError

fun base :: "pyclass \<Rightarrow> pyclass option" where
  "base Object = None"
| "base Str = Some Object"
| "base BaseException = Some Object"
| "base Exception = Some BaseException"
| "base RuntimeError = Some Exception"
| "base ValueError = Some Exception"
| "base AssertionError = Some Exception"
| "base ArithmeticError = Some Exception"
| "base OverflowError = Some ArithmeticError"
| "base Empty = Some Exception"
| "base RequestError = Some RuntimeError"

text \<open>The method resolution order: the class, then the classes it inherits from.\<close>

function mro :: "pyclass \<Rightarrow> pyclass list" where
  "mro c = c # (case base c of None \<Rightarrow> [] | Some b \<Rightarrow> mro b)"
  by pat_completeness auto
termination
  by (relation "measure (\<lambda>c. case c of Object \<Rightarrow> 0 | Str \<Rightarrow> 1 | BaseException \<Rightarrow> 1
        | Exception \<Rightarrow> 2 | RequestError \<Rightarrow> 4 | OverflowError \<Rightarrow> 4
        | _ \<Rightarrow> (3::nat))")
     (auto elim: base.elims)

declare mro.simps [simp del]

definition issubclass :: "pyclass \<Rightarrow> pyclass \<Rightarrow> bool" where
  "issubclass c d = (d \<in> set (mro c))"

text \<open>An exception object: its class and its message.\<close>

datatype exn = Exn (exn_class: pyclass) (exn_msg: string)

text \<open>
  What a call does: it returns a value, raises an exception, or blocks and never returns
  (no other thread is there to wake it).
\<close>

datatype 'a outcome = Returns 'a | Raises exn | Blocks

section \<open>\<open>IntraProcessQueue\<close>\<close>

text \<open>
  \<open>self.queue = Queue()\<close>: an unbounded FIFO of the standard library. The list holds the
  items, oldest first. \<open>Queue.put\<close> appends; on an unbounded queue it never blocks.
  \<open>Queue.get(timeout=t)\<close> (with \<open>block=True\<close>) removes and returns the oldest item; on an
  empty queue it waits forever when \<open>t\<close> is \<open>None\<close> and raises \<open>Empty\<close> once \<open>t\<close> seconds
  have passed otherwise; a negative \<open>t\<close> raises \<open>ValueError\<close> whatever the queue holds.
  The wait on an empty queue is a lock acquisition with the remaining time as its timeout,
  which raises \<open>OverflowError\<close> when that exceeds \<open>threading.TIMEOUT_MAX\<close> (9223372036
  seconds on 64-bit Linux); its message depends on the size of the number and is given
  here for a timeout just above the limit. Timeouts are finite numbers.
\<close>

definition TIMEOUT_MAX :: real where
  "TIMEOUT_MAX = 9223372036"

definition Queue_put :: "'a list \<Rightarrow> 'a \<Rightarrow> 'a list" where
  "Queue_put items obj = items @ [obj]"

definition Queue_get :: "'a list \<Rightarrow> real option \<Rightarrow> 'a outcome \<times> 'a list" where
  "Queue_get items timeout =
     (case timeout of
        None \<Rightarrow> (case items of [] \<Rightarrow> (Blocks, items) | x # xs \<Rightarrow> (Returns x, xs))
      | Some t \<Rightarrow>
          if t < 0 then
            (Raises (Exn ValueError
               (CHR 0x27 # ''timeout'' @ CHR 0x27 # '' must be a non-negative number'')), items)
          else
            (case items of
               [] \<Rightarrow>
                 if TIMEOUT_MAX < t then
                   (Raises (Exn OverflowError ''timeout value is too large''), items)
                 else (Raises (Exn Empty []), items)
             | x # xs \<Rightarrow> (Returns x, xs)))"

record 'a IntraProcessQueue =
  queue :: "'a list"

definition IntraProcessQueue_init :: "'a IntraProcessQueue" where
  "IntraProcessQueue_init = \<lparr>queue = []\<rparr>"

definition IntraProcessQueue_put :: "'a IntraProcessQueue \<Rightarrow> 'a \<Rightarrow> 'a IntraProcessQueue" where
  "IntraProcessQueue_put self obj = self\<lparr>queue := Queue_put (queue self) obj\<rparr>"

definition IntraProcessQueue_get ::
  "'a IntraProcessQueue \<Rightarrow> real option \<Rightarrow> 'a outcome \<times> 'a IntraProcessQueue" where
  "IntraProcessQueue_get self timeout =
     (case Queue_get (queue self) timeout of (r, items) \<Rightarrow> (r, self\<lparr>queue := items\<rparr>))"

text \<open>\<open>def close(self): pass\<close>\<close>

definition IntraProcessQueue_close :: "'a IntraProcessQueue \<Rightarrow> 'a IntraProcessQueue" where
  "IntraProcessQueue_close self = self"

text \<open>
  \<open>poll\<close> takes an item with \<open>self.queue.get(timeout=timeout)\<close>, puts it back with
  \<open>self.queue.put(item)\<close> and returns \<open>True\<close>; \<open>except Empty\<close> catches an exception whose
  class is \<open>Empty\<close> or inherits from it and returns \<open>False\<close>; any other exception
  propagates.
\<close>

definition IntraProcessQueue_poll ::
  "'a IntraProcessQueue \<Rightarrow> real option \<Rightarrow> bool outcome \<times> 'a IntraProcessQueue" where
  "IntraProcessQueue_poll self timeout =
     (case Queue_get (queue self) timeout of
        (Returns item, items) \<Rightarrow> (Returns True, self\<lparr>queue := Queue_put items item\<rparr>)
      | (Raises e, items) \<Rightarrow>
          if issubclass (exn_class e) Empty then (Returns False, self\<lparr>queue := items\<rparr>)
          else (Raises e, self\<lparr>queue := items\<rparr>)
      | (Blocks, items) \<Rightarrow> (Blocks, self\<lparr>queue := items\<rparr>))"

section \<open>Session selection: \<open>create_mpi_comm_session\<close>\<close>

text \<open>
  The process environment is a map from names to values; \<open>os.getenv\<close> looks a name up and
  gives \<open>None\<close> when it is not set.
\<close>

type_synonym environ = "string \<rightharpoonup> string"

definition getenv :: "environ \<Rightarrow> string \<Rightarrow> string option" where
  "getenv env name = env name"

definition get_spawn_proxy_process_ipc_addr_env :: "environ \<Rightarrow> string option" where
  "get_spawn_proxy_process_ipc_addr_env env = getenv env ''TLLM_SPAWN_PROXY_PROCESS_IPC_ADDR''"

definition get_spawn_proxy_process_env :: "environ \<Rightarrow> bool" where
  "get_spawn_proxy_process_env env = (getenv env ''TLLM_SPAWN_PROXY_PROCESS'' = Some ''1'')"

text \<open>
  The two session classes are imported from \<open>llmapi/mpi_session.py\<close>; a value of
  \<open>mpi_session\<close> records which of them \<open>create_mpi_comm_session\<close> instantiates and with
  which argument.
\<close>

datatype mpi_session = RemoteMpiCommSessionClient string | MpiCommSession int

text \<open>
  \<open>assert x, msg\<close> on \<open>x : str | None\<close> raises \<open>AssertionError\<close> when \<open>x\<close> is \<open>None\<close> or
  the empty string. The debug message printed on each branch is not modelled.
\<close>

definition create_mpi_comm_session :: "environ \<Rightarrow> int \<Rightarrow> exn + mpi_session" where
  "create_mpi_comm_session env n_workers =
     (if get_spawn_proxy_process_env env then
        (case get_spawn_proxy_process_ipc_addr_env env of
           None \<Rightarrow> Inl (Exn AssertionError ''TLLM_SPAWN_PROXY_PROCESS_IPC_ADDR is not set.'')
         | Some addr \<Rightarrow>
             if addr = [] then
               Inl (Exn AssertionError ''TLLM_SPAWN_PROXY_PROCESS_IPC_ADDR is not set.'')
             else Inr (RemoteMpiCommSessionClient addr))
      else Inr (MpiCommSession n_workers))"

section \<open>\<open>ProcessPoolExecutorSession\<close>\<close>

text \<open>
  The standard library's \<open>ProcessPoolExecutor\<close>, as far as the session uses it. The
  constructor rejects \<open>max_workers <= 0\<close> with \<open>ValueError\<close>. \<open>submit\<close> queues a work item
  and returns its future, or raises \<open>RuntimeError\<close> once \<open>shutdown\<close> has been called.
  A future carries the position of its work item in the pool and the task.
\<close>

datatype 't future = Future (job_id: nat) (job_task: 't)

record 't ProcessPoolExecutor =
  max_workers :: int
  work_items :: "'t list"
  shutdown_called :: bool

definition ProcessPoolExecutor_init :: "int \<Rightarrow> exn + 't ProcessPoolExecutor" where
  "ProcessPoolExecutor_init n =
     (if n \<le> 0 then Inl (Exn ValueError ''max_workers must be greater than 0'')
      else Inr \<lparr>max_workers = n, work_items = [], shutdown_called = False\<rparr>)"

definition ProcessPoolExecutor_submit ::
  "'t ProcessPoolExecutor \<Rightarrow> 't \<Rightarrow> (exn + 't future) \<times> 't ProcessPoolExecutor" where
  "ProcessPoolExecutor_submit pool task =
     (if shutdown_called pool then
        (Inl (Exn RuntimeError ''cannot schedule new futures after shutdown''), pool)
      else (Inr (Future (length (work_items pool)) task),
            pool\<lparr>work_items := work_items pool @ [task]\<rparr>))"

definition ProcessPoolExecutor_shutdown :: "'t ProcessPoolExecutor \<Rightarrow> 't ProcessPoolExecutor" where
  "ProcessPoolExecutor_shutdown pool = pool\<lparr>shutdown_called := True\<rparr>"

record 't ProcessPoolExecutorSession =
  n_workers :: int
  mpi_pool :: "'t ProcessPoolExecutor"

definition ProcessPoolExecutorSession_init :: "int \<Rightarrow> exn + 't ProcessPoolExecutorSession" where
  "ProcessPoolExecutorSession_init n =
     (case ProcessPoolExecutor_init n of
        Inl e \<Rightarrow> Inl e
      | Inr pool \<Rightarrow> Inr \<lparr>n_workers = n, mpi_pool = pool\<rparr>)"

text \<open>
  \<open>[self.mpi_pool.submit(task, *args, **kwargs) for i in range(self.n_workers)]\<close>:
  \<open>submit_all k\<close> runs the \<open>k\<close> iterations; an exception of \<open>submit\<close> ends the comprehension.
\<close>

fun submit_all ::
  "nat \<Rightarrow> 't ProcessPoolExecutor \<Rightarrow> 't \<Rightarrow> (exn + 't future list) \<times> 't ProcessPoolExecutor" where
  "submit_all 0 pool task = (Inr [], pool)"
| "submit_all (Suc k) pool task =
     (case ProcessPoolExecutor_submit pool task of
        (Inl e, pool') \<Rightarrow> (Inl e, pool')
      | (Inr f, pool') \<Rightarrow>
          (case submit_all k pool' task of
             (Inl e, pool'') \<Rightarrow> (Inl e, pool'')
           | (Inr fs, pool'') \<Rightarrow> (Inr (f # fs), pool'')))"

definition ProcessPoolExecutorSession_submit ::
  "'t ProcessPoolExecutorSession \<Rightarrow> 't
     \<Rightarrow> (exn + 't future list) \<times> 't ProcessPoolExecutorSession" where
  "ProcessPoolExecutorSession_submit self task =
     (case submit_all (nat (n_workers self)) (mpi_pool self) task of
        (r, pool) \<Rightarrow> (r, self\<lparr>mpi_pool := pool\<rparr>))"

text \<open>
  \<open>[future.result() for future in futures]\<close>. What the worker processes make of each work
  item is the parameter \<open>w\<close>: \<open>w f\<close> is the value \<open>f.result()\<close> returns (\<open>Inr\<close>) or the
  exception it raises (\<open>Inl\<close>). The comprehension calls \<open>result()\<close> on the futures in order
  and ends at the first exception. The second component lists the futures whose
  \<open>result()\<close> was called.
\<close>

fun results :: "('t future \<Rightarrow> exn + 'r) \<Rightarrow> 't future list \<Rightarrow> (exn + 'r list) \<times> 't future list" where
  "results w [] = (Inr [], [])"
| "results w (f # fs) =
     (case w f of
        Inl e \<Rightarrow> (Inl e, [f])
      | Inr r \<Rightarrow>
          (case results w fs of
             (Inl e, waited) \<Rightarrow> (Inl e, f # waited)
           | (Inr rs, waited) \<Rightarrow> (Inr (r # rs), f # waited)))"

definition ProcessPoolExecutorSession_submit_sync ::
  "('t future \<Rightarrow> exn + 'r) \<Rightarrow> 't ProcessPoolExecutorSession \<Rightarrow> 't
     \<Rightarrow> (exn + 'r list) \<times> 't future list \<times> 't ProcessPoolExecutorSession" where
  "ProcessPoolExecutorSession_submit_sync w self task =
     (case ProcessPoolExecutorSession_submit self task of
        (Inl e, self') \<Rightarrow> (Inl e, [], self')
      | (Inr futures, self') \<Rightarrow>
          (case results w futures of (r, waited) \<Rightarrow> (r, waited, self')))"

definition ProcessPoolExecutorSession_shutdown ::
  "'t ProcessPoolExecutorSession \<Rightarrow> 't ProcessPoolExecutorSession" where
  "ProcessPoolExecutorSession_shutdown self =
     self\<lparr>mpi_pool := ProcessPoolExecutor_shutdown (mpi_pool self)\<rparr>"

section \<open>The response types and \<open>WorkerCommIpcAddrs\<close>\<close>

text \<open>
  Tensors, finish reasons and disaggregated parameters come from other modules and are
  opaque here. The \<open>error\<close> field of a response holds \<open>None\<close>, a \<open>str\<close> or an exception.
\<close>

typedecl Tensor
typedecl FinishReason
typedecl DisaggregatedParams

datatype error_value = ErrorStr string | ErrorExc exn

fun type_of :: "error_value \<Rightarrow> pyclass" where
  "type_of (ErrorStr s) = Str"
| "type_of (ErrorExc e) = exn_class e"

definition isinstance :: "error_value \<Rightarrow> pyclass \<Rightarrow> bool" where
  "isinstance v c = issubclass (type_of v) c"

record ExecutorResponseTensors =
  output_token_ids :: "int list list"
  context_logits :: "(Tensor + string) option"
  generation_logits :: "(Tensor + string) option"
  log_probs :: "real list option"
  cum_log_probs :: "real list option"

record ErrorResponse =
  client_id :: int
  error_msg :: string
  request_id :: int

record ExecutorResponse =
  client_id :: int
  tensors :: "ExecutorResponseTensors option"
  finish_reasons :: "FinishReason list option"
  is_final :: "bool option"
  sequence_index :: "int option"
  error :: "error_value option"
  timestamp :: "real option"
  disaggregated_params :: "DisaggregatedParams option"

record WorkerCommIpcAddrs =
  request_queue_addr :: string
  request_error_queue_addr :: string
  result_queue_addr :: string
  stats_queue_addr :: string
  kv_cache_events_queue_addr :: string

text \<open>
  The constructor a \<open>NamedTuple\<close> class gets: it stores its five arguments and checks
  nothing.
\<close>

definition WorkerCommIpcAddrs_new ::
  "string \<Rightarrow> string \<Rightarrow> string \<Rightarrow> string \<Rightarrow> string \<Rightarrow> exn + WorkerCommIpcAddrs" where
  "WorkerCommIpcAddrs_new a b c d e =
     Inr \<lparr>request_queue_addr = a, request_error_queue_addr = b, result_queue_addr = c,
          stats_queue_addr = d, kv_cache_events_queue_addr = e\<rparr>"

text \<open>
  Modelled from the spec: the dispatch on the \<open>error\<close> field of a response, which is in
  the coordinator's drain loop and not in this module. The module's comment on the field
  and section 4.3 of the specification give it: a \<open>str\<close> is a per-request error that does not stop the
  service, an \<open>Exception\<close> is processed in the main thread and stops the whole service, and
  a response with neither is forwarded to its consumer.
\<close>

datatype disposition = PerRequestError | ServiceFatalError | Forward

definition dispatch_error :: "error_value option \<Rightarrow> disposition" where
  "dispatch_error err =
     (case err of
        None \<Rightarrow> Forward
      | Some v \<Rightarrow>
          if isinstance v Str then PerRequestError
          else if isinstance v Exception then ServiceFatalError
          else Forward)"

section \<open>Example inputs\<close>

text \<open>A session of three workers, as \<open>ProcessPoolExecutorSession(3)\<close> builds it.\<close>

definition three_workers :: "unit ProcessPoolExecutorSession" where
  "three_workers =
     \<lparr>n_workers = 3, mpi_pool = \<lparr>max_workers = 3, work_items = [], shutdown_called = False\<rparr>\<rparr>"


text \<open>Worker processes of which the second one raises, and worker processes that all return.\<close>

definition second_worker_raises :: "unit future \<Rightarrow> exn + nat" where
  "second_worker_raises f =
     (if job_id f = 1 then Inl (Exn RuntimeError ''worker 2 failed'') else Inr (job_id f))"


text \<open>Environments: the flag alone, the flag with an address, an address without the flag
  (once with the flag unset, once with the flag set to \<open>0\<close>).\<close>

definition proxy_flag_only :: environ where
  "proxy_flag_only = [''TLLM_SPAWN_PROXY_PROCESS'' \<mapsto> ''1'']"

definition proxy_flag_and_addr :: environ where
  "proxy_flag_and_addr =
     [''TLLM_SPAWN_PROXY_PROCESS'' \<mapsto> ''1'',
      ''TLLM_SPAWN_PROXY_PROCESS_IPC_ADDR'' \<mapsto> ''ipc:///tmp/proxy'']"

definition proxy_addr_only :: environ where
  "proxy_addr_only = [''TLLM_SPAWN_PROXY_PROCESS_IPC_ADDR'' \<mapsto> ''ipc:///tmp/proxy'']"

definition proxy_flag_zero :: environ where
  "proxy_flag_zero =
     [''TLLM_SPAWN_PROXY_PROCESS'' \<mapsto> ''0'',
      ''TLLM_SPAWN_PROXY_PROCESS_IPC_ADDR'' \<mapsto> ''ipc:///tmp/proxy'']"

section \<open>Facts about the class hierarchy\<close>

lemma mro_Object: "mro Object = [Object]"
  by (simp add: mro.simps)

lemma mro_Str: "mro Str = [Str, Object]"
  by (simp add: mro.simps [of Str] mro_Object)

lemma mro_BaseException: "mro BaseException = [BaseException, Object]"
  by (simp add: mro.simps [of BaseException] mro_Object)

lemma mro_Exception: "mro Exception = [Exception, BaseException, Object]"
  by (simp add: mro.simps [of Exception] mro_BaseException)

lemma mro_Empty: "mro Empty = [Empty, Exception, BaseException, Object]"
  by (simp add: mro.simps [of Empty] mro_Exception)

lemma mro_ValueError: "mro ValueError = [ValueError, Exception, BaseException, Object]"
  by (simp add: mro.simps [of ValueError] mro_Exception)

lemma mro_AssertionError:
  "mro AssertionError = [AssertionError, Exception, BaseException, Object]"
  by (simp add: mro.simps [of AssertionError] mro_Exception)

lemma mro_ArithmeticError:
  "mro ArithmeticError = [ArithmeticError, Exception, BaseException, Object]"
  by (simp add: mro.simps [of ArithmeticError] mro_Exception)

lemma mro_OverflowError:
  "mro OverflowError = [OverflowError, ArithmeticError, Exception, BaseException, Object]"
  by (simp add: mro.simps [of OverflowError] mro_ArithmeticError)

lemma mro_RuntimeError: "mro RuntimeError = [RuntimeError, Exception, BaseException, Object]"
  by (simp add: mro.simps [of RuntimeError] mro_Exception)

lemma mro_RequestError:
  "mro RequestError = [RequestError, RuntimeError, Exception, BaseException, Object]"
  by (simp add: mro.simps [of RequestError] mro_RuntimeError)

lemmas mro_all = mro_Object mro_Str mro_BaseException mro_Exception mro_RuntimeError
  mro_ValueError mro_AssertionError mro_ArithmeticError mro_OverflowError mro_Empty
  mro_RequestError

lemma Empty_is_Empty: "issubclass Empty Empty"
  by (simp add: issubclass_def mro_Empty)

lemma ValueError_not_Empty: "\<not> issubclass ValueError Empty"
  by (simp add: issubclass_def mro_ValueError)

lemma OverflowError_not_Empty: "\<not> issubclass OverflowError Empty"
  by (simp add: issubclass_def mro_OverflowError)

text \<open>No class of the module inherits from \<open>RequestError\<close>.\<close>

lemma issubclass_RequestError_iff: "issubclass c RequestError \<longleftrightarrow> c = RequestError"
  by (cases c) (simp_all add: issubclass_def mro_all)

section \<open>\<open>IntraProcessQueue\<close>: \<open>get\<close>, \<open>poll\<close> and \<open>close\<close>\<close>

text \<open>
  \<open>get\<close> on a queue that holds an item takes the oldest one, unless the timeout is
  negative; on an empty queue it raises \<open>Empty\<close> when a timeout up to \<open>TIMEOUT_MAX\<close> is
  given, raises \<open>OverflowError\<close> when a larger one is given, and blocks when none is.
\<close>

lemma get_returns_oldest:
  "queue self = x # xs \<Longrightarrow> timeout = None \<or> (\<exists>t. timeout = Some t \<and> 0 \<le> t) \<Longrightarrow>
   IntraProcessQueue_get self timeout = (Returns x, self\<lparr>queue := xs\<rparr>)"
  by (auto simp: IntraProcessQueue_get_def Queue_get_def)

lemma get_empty_raises_Empty:
  "queue self = [] \<Longrightarrow> 0 \<le> t \<Longrightarrow> t \<le> TIMEOUT_MAX \<Longrightarrow>
   IntraProcessQueue_get self (Some t) = (Raises (Exn Empty []), self)"
  by (simp add: IntraProcessQueue_get_def Queue_get_def)

lemma get_empty_timeout_too_large:
  "queue self = [] \<Longrightarrow> TIMEOUT_MAX < t \<Longrightarrow>
   \<exists>e. IntraProcessQueue_get self (Some t) = (Raises e, self) \<and> exn_class e = OverflowError"
  by (simp add: IntraProcessQueue_get_def Queue_get_def TIMEOUT_MAX_def)

lemma get_empty_no_timeout_blocks:
  "queue self = [] \<Longrightarrow> IntraProcessQueue_get self None = (Blocks, self)"
  by (simp add: IntraProcessQueue_get_def Queue_get_def)

text \<open>
  \<open>poll\<close> on a queue that holds an item returns \<open>True\<close> and moves the oldest item behind
  the others; with a timeout up to \<open>TIMEOUT_MAX\<close> it returns \<open>False\<close> on an empty queue.
  The \<open>ValueError\<close> of a negative timeout and the \<open>OverflowError\<close> of one that is too
  large are not caught.
\<close>

lemma poll_moves_oldest_to_back:
  "queue self = x # xs \<Longrightarrow>
   IntraProcessQueue_poll self None = (Returns True, self\<lparr>queue := xs @ [x]\<rparr>)"
  by (simp add: IntraProcessQueue_poll_def Queue_get_def Queue_put_def)

lemma poll_empty_with_timeout:
  "queue self = [] \<Longrightarrow> 0 \<le> t \<Longrightarrow> t \<le> TIMEOUT_MAX \<Longrightarrow>
   IntraProcessQueue_poll self (Some t) = (Returns False, self)"
  by (simp add: IntraProcessQueue_poll_def Queue_get_def Empty_is_Empty)

lemma poll_empty_timeout_too_large:
  "queue self = [] \<Longrightarrow> TIMEOUT_MAX < t \<Longrightarrow>
   \<exists>e. IntraProcessQueue_poll self (Some t) = (Raises e, self) \<and> exn_class e = OverflowError"
  by (simp add: IntraProcessQueue_poll_def Queue_get_def TIMEOUT_MAX_def OverflowError_not_Empty)

lemma poll_negative_timeout:
  "t < 0 \<Longrightarrow> \<exists>e. IntraProcessQueue_poll self (Some t) = (Raises e, self) \<and> exn_class e = ValueError"
  by (simp add: IntraProcessQueue_poll_def Queue_get_def ValueError_not_Empty)

text \<open>
  C2. If \<open>poll\<close> finds an item it returns true and the items that \<open>get\<close> returns afterwards
  are the same, in the same order, as without the \<open>poll\<close>. The code does not do this on a
  queue of two items: on the queue holding 1 then 2, \<open>poll\<close> returns \<open>True\<close> and leaves
  2 then 1, so the next \<open>get\<close> returns 2, where it returns 1 without the \<open>poll\<close>.
\<close>

theorem poll_reorders_two_items:
  "IntraProcessQueue_poll \<lparr>queue = [1, 2 :: nat]\<rparr> None = (Returns True, \<lparr>queue = [2, 1]\<rparr>)
   \<and> IntraProcessQueue_get \<lparr>queue = [1, 2 :: nat]\<rparr> None = (Returns 1, \<lparr>queue = [2]\<rparr>)
   \<and> IntraProcessQueue_get \<lparr>queue = [2, 1 :: nat]\<rparr> None = (Returns 2, \<lparr>queue = [1]\<rparr>)"
  by (simp add: IntraProcessQueue_poll_def IntraProcessQueue_get_def Queue_get_def Queue_put_def)

text \<open>
  C3. Over every interleaving of \<open>put\<close>, \<open>poll\<close> and \<open>get\<close>, each \<open>get\<close> returns the oldest
  item put and not yet consumed. The code does not do this after \<open>put(1)\<close>, \<open>put(2)\<close>,
  \<open>poll()\<close>: the \<open>get\<close> that follows returns 2, and the oldest item not yet consumed is 1
  (which the same \<open>get\<close> returns when the \<open>poll\<close> is left out).
\<close>

theorem get_after_poll_is_not_oldest:
  "fst (IntraProcessQueue_get
         (IntraProcessQueue_put (IntraProcessQueue_put IntraProcessQueue_init (1::nat)) 2) None)
     = Returns 1
   \<and> fst (IntraProcessQueue_get
         (snd (IntraProcessQueue_poll
           (IntraProcessQueue_put (IntraProcessQueue_put IntraProcessQueue_init (1::nat)) 2) None))
         None)
     = Returns 2"
  by (simp add: IntraProcessQueue_poll_def IntraProcessQueue_get_def IntraProcessQueue_put_def
        IntraProcessQueue_init_def Queue_get_def Queue_put_def)

text \<open>
  C7. \<open>poll\<close> on an empty queue returns false rather than blocking, also when no timeout is
  set. The code does not do this: with \<open>timeout=None\<close> (the default) on an empty queue,
  \<open>poll\<close> blocks in \<open>self.queue.get(timeout=None)\<close> and returns nothing.
\<close>

theorem poll_empty_no_timeout_blocks:
  "IntraProcessQueue_poll (IntraProcessQueue_init :: nat IntraProcessQueue) None
     = (Blocks, IntraProcessQueue_init)"
  by (simp add: IntraProcessQueue_poll_def IntraProcessQueue_init_def Queue_get_def)

text \<open>
  C8, as the claim states it: after \<open>close()\<close> a blocking \<open>get\<close> ends with a closed-channel
  condition that differs from the timeout of an empty queue. On the empty queue this
  fails: after \<open>close()\<close>, \<open>get(timeout=1)\<close> raises \<open>Empty\<close>, exactly as without the
  \<open>close()\<close>, and \<open>get()\<close> without a timeout blocks.
\<close>

theorem get_after_close_is_plain_get:
  "IntraProcessQueue_get (IntraProcessQueue_close (IntraProcessQueue_init :: nat IntraProcessQueue))
       (Some 1)
     = (Raises (Exn Empty []), IntraProcessQueue_init)
   \<and> IntraProcessQueue_get (IntraProcessQueue_close (IntraProcessQueue_init :: nat IntraProcessQueue))
       None
     = (Blocks, IntraProcessQueue_init)
   \<and> IntraProcessQueue_get (IntraProcessQueue_close (IntraProcessQueue_init :: nat IntraProcessQueue))
       (Some 1)
     = IntraProcessQueue_get (IntraProcessQueue_init :: nat IntraProcessQueue) (Some 1)"
  by (simp add: IntraProcessQueue_get_def IntraProcessQueue_close_def IntraProcessQueue_init_def
        Queue_get_def TIMEOUT_MAX_def)

text \<open>
  C8, amended: \<open>close()\<close> on an \<open>IntraProcessQueue\<close> changes nothing. A \<open>get\<close> after it
  does what the same \<open>get\<close> does without it, and a second \<open>close()\<close> has no further
  effect.
\<close>

theorem close_has_no_effect:
  "IntraProcessQueue_close self = self
   \<and> IntraProcessQueue_get (IntraProcessQueue_close self) timeout
       = IntraProcessQueue_get self timeout
   \<and> IntraProcessQueue_close (IntraProcessQueue_close self) = IntraProcessQueue_close self"
  by (simp add: IntraProcessQueue_close_def)

section \<open>\<open>WorkerCommIpcAddrs\<close>\<close>

text \<open>
  C4, as the claim states it: constructing a \<open>WorkerCommIpcAddrs\<close> with an empty address
  fails. It does not: with an empty request queue address the constructor returns the
  tuple.
\<close>

theorem WorkerCommIpcAddrs_new_accepts_empty:
  "WorkerCommIpcAddrs_new [] ''ipc://err'' ''ipc://res'' ''ipc://stats'' ''ipc://kv''
     = Inr \<lparr>request_queue_addr = [], request_error_queue_addr = ''ipc://err'',
            result_queue_addr = ''ipc://res'', stats_queue_addr = ''ipc://stats'',
            kv_cache_events_queue_addr = ''ipc://kv''\<rparr>"
  by (simp add: WorkerCommIpcAddrs_new_def)

text \<open>
  C4, amended: constructing a \<open>WorkerCommIpcAddrs\<close> succeeds for any five address
  strings, empty ones included, and the tuple holds the five strings as given.
\<close>

theorem WorkerCommIpcAddrs_new_never_fails:
  "\<exists>addrs. WorkerCommIpcAddrs_new a b c d e = Inr addrs
     \<and> request_queue_addr addrs = a \<and> request_error_queue_addr addrs = b
     \<and> result_queue_addr addrs = c \<and> stats_queue_addr addrs = d
     \<and> kv_cache_events_queue_addr addrs = e"
  by (simp add: WorkerCommIpcAddrs_new_def)

section \<open>\<open>create_mpi_comm_session\<close>\<close>

text \<open>
  C5. The session that \<open>create_mpi_comm_session\<close> builds depends on the environment only
  through the spawn-proxy flag and the proxy address. With the flag set and the address
  absent (not set, or set to the empty string) the call fails with \<open>AssertionError\<close> and
  builds no session; with the flag set and a non-empty address it builds a
  \<open>RemoteMpiCommSessionClient\<close> on that address; with the flag unset it builds an
  \<open>MpiCommSession\<close> of \<open>n_workers\<close> workers.
\<close>

theorem create_mpi_comm_session_selection:
  "(get_spawn_proxy_process_env env
      \<and> get_spawn_proxy_process_ipc_addr_env env \<in> {None, Some []}
      \<longrightarrow> (\<exists>e. create_mpi_comm_session env n = Inl e \<and> exn_class e = AssertionError))
   \<and> (get_spawn_proxy_process_env env
      \<and> get_spawn_proxy_process_ipc_addr_env env = Some addr \<and> addr \<noteq> []
      \<longrightarrow> create_mpi_comm_session env n = Inr (RemoteMpiCommSessionClient addr))
   \<and> (\<not> get_spawn_proxy_process_env env
      \<longrightarrow> create_mpi_comm_session env n = Inr (MpiCommSession n))
   \<and> (get_spawn_proxy_process_env env = get_spawn_proxy_process_env env'
      \<and> get_spawn_proxy_process_ipc_addr_env env = get_spawn_proxy_process_ipc_addr_env env'
      \<longrightarrow> create_mpi_comm_session env n = create_mpi_comm_session env' n)"
  by (auto simp: create_mpi_comm_session_def)

text \<open>
  The three cases at concrete environments, and two different environments with the same
  flag (unset, and set to \<open>0\<close>) and the same address.
\<close>

theorem create_mpi_comm_session_selection_witness:
  "get_spawn_proxy_process_env proxy_flag_only
   \<and> get_spawn_proxy_process_ipc_addr_env proxy_flag_only = None
   \<and> (\<exists>e. create_mpi_comm_session proxy_flag_only 4 = Inl e \<and> exn_class e = AssertionError)
   \<and> get_spawn_proxy_process_env proxy_flag_and_addr
   \<and> get_spawn_proxy_process_ipc_addr_env proxy_flag_and_addr = Some ''ipc:///tmp/proxy''
   \<and> create_mpi_comm_session proxy_flag_and_addr 4
       = Inr (RemoteMpiCommSessionClient ''ipc:///tmp/proxy'')
   \<and> \<not> get_spawn_proxy_process_env proxy_addr_only
   \<and> create_mpi_comm_session proxy_addr_only 4 = Inr (MpiCommSession 4)
   \<and> get_spawn_proxy_process_env proxy_addr_only = get_spawn_proxy_process_env proxy_flag_zero
   \<and> get_spawn_proxy_process_ipc_addr_env proxy_addr_only
       = get_spawn_proxy_process_ipc_addr_env proxy_flag_zero
   \<and> create_mpi_comm_session proxy_addr_only 4 = create_mpi_comm_session proxy_flag_zero 4"
proof -
  have flag1: "get_spawn_proxy_process_env proxy_flag_only"
    by (simp add: get_spawn_proxy_process_env_def getenv_def proxy_flag_only_def)
  have addr1: "get_spawn_proxy_process_ipc_addr_env proxy_flag_only = None"
    by (simp add: get_spawn_proxy_process_ipc_addr_env_def getenv_def proxy_flag_only_def)
  have flag2: "get_spawn_proxy_process_env proxy_flag_and_addr"
    by (simp add: get_spawn_proxy_process_env_def getenv_def proxy_flag_and_addr_def)
  have addr2:
    "get_spawn_proxy_process_ipc_addr_env proxy_flag_and_addr = Some ''ipc:///tmp/proxy''"
    by (simp add: get_spawn_proxy_process_ipc_addr_env_def getenv_def proxy_flag_and_addr_def)
  have flag3: "\<not> get_spawn_proxy_process_env proxy_addr_only"
    by (simp add: get_spawn_proxy_process_env_def getenv_def proxy_addr_only_def)
  have flag4: "\<not> get_spawn_proxy_process_env proxy_flag_zero"
    by (simp add: get_spawn_proxy_process_env_def getenv_def proxy_flag_zero_def)
  have addr34: "get_spawn_proxy_process_ipc_addr_env proxy_addr_only
       = get_spawn_proxy_process_ipc_addr_env proxy_flag_zero"
    by (simp add: get_spawn_proxy_process_ipc_addr_env_def getenv_def proxy_addr_only_def
          proxy_flag_zero_def)
  show ?thesis
    using create_mpi_comm_session_selection [of proxy_flag_only 4 "[]" proxy_flag_only]
      create_mpi_comm_session_selection
        [of proxy_flag_and_addr 4 "''ipc:///tmp/proxy''" proxy_flag_and_addr]
      create_mpi_comm_session_selection [of proxy_addr_only 4 "[]" proxy_flag_zero]
      flag1 addr1 flag2 addr2 flag3 flag4 addr34
    by auto
qed

section \<open>\<open>RequestError\<close> in the \<open>error\<close> field\<close>

text \<open>
  C10. \<open>RequestError\<close> inherits from \<open>RuntimeError\<close> and so from \<open>Exception\<close>; a
  \<open>RequestError\<close> instance in the \<open>error\<close> field of a response is therefore an
  \<open>Exception\<close> and not a \<open>str\<close>, and the dispatch on the field takes the branch of the
  errors that stop the whole service, not that of the per-request errors.
\<close>

theorem RequestError_is_service_fatal:
  assumes "issubclass (exn_class e) RequestError"
  shows "issubclass (exn_class e) RuntimeError
       \<and> isinstance (ErrorExc e) Exception
       \<and> \<not> isinstance (ErrorExc e) Str
       \<and> dispatch_error (Some (ErrorExc e)) = ServiceFatalError"
proof -
  from assms have "exn_class e = RequestError"
    by (simp add: issubclass_RequestError_iff)
  then show ?thesis
    by (simp add: dispatch_error_def isinstance_def issubclass_def mro_RequestError)
qed

text \<open>A \<open>RequestError\<close> with a message, beside the same message as a plain string.\<close>

theorem RequestError_is_service_fatal_witness:
  "issubclass (exn_class (Exn RequestError ''request failed'')) RequestError
   \<and> dispatch_error (Some (ErrorExc (Exn RequestError ''request failed''))) = ServiceFatalError
   \<and> dispatch_error (Some (ErrorStr ''request failed'')) = PerRequestError"
proof -
  have h: "issubclass (exn_class (Exn RequestError ''request failed'')) RequestError"
    by (simp add: issubclass_def mro_RequestError)
  have s: "dispatch_error (Some (ErrorStr ''request failed'')) = PerRequestError"
    by (simp add: dispatch_error_def isinstance_def issubclass_def mro_Str)
  show ?thesis
    using RequestError_is_service_fatal [OF h] h s by simp
qed

section \<open>\<open>ProcessPoolExecutorSession\<close>: \<open>submit\<close> and \<open>submit_sync\<close>\<close>

text \<open>A pool that has not been shut down accepts every work item, in order.\<close>

lemma submit_all_live:
  "\<not> shutdown_called pool \<Longrightarrow>
   submit_all k pool task =
     (Inr (map (\<lambda>i. Future i task) [length (work_items pool) ..< length (work_items pool) + k]),
      pool\<lparr>work_items := work_items pool @ replicate k task\<rparr>)"
proof (induction k arbitrary: pool)
  case 0
  then show ?case by simp
next
  case (Suc k)
  let ?pool' = "pool\<lparr>work_items := work_items pool @ [task]\<rparr>"
  have live: "\<not> shutdown_called ?pool'"
    using Suc.prems by simp
  have step: "ProcessPoolExecutor_submit pool task
                = (Inr (Future (length (work_items pool)) task), ?pool')"
    using Suc.prems by (simp add: ProcessPoolExecutor_submit_def)
  show ?case
    by (simp add: step Suc.IH [OF live] upt_rec [of "length (work_items pool)"]
          replicate_app_Cons_same)
qed

lemma submit_all_job_ids:
  "submit_all k pool task = (Inr fs, pool') \<Longrightarrow>
   map job_id fs = [length (work_items pool) ..< length (work_items pool) + k]"
proof (induction k arbitrary: pool fs pool')
  case 0
  then show ?case by simp
next
  case (Suc k)
  then show ?case
    by (auto simp: ProcessPoolExecutor_submit_def upt_rec [of "length (work_items pool)"]
             split: if_splits prod.splits sum.splits)
qed

lemma submit_live:
  "\<not> shutdown_called (mpi_pool self) \<Longrightarrow>
   ProcessPoolExecutorSession_submit self task =
     (Inr (map (\<lambda>i. Future i task)
            [length (work_items (mpi_pool self)) ..<
             length (work_items (mpi_pool self)) + nat (n_workers self)]),
      self\<lparr>mpi_pool := (mpi_pool self)\<lparr>work_items :=
              work_items (mpi_pool self) @ replicate (nat (n_workers self)) task\<rparr>\<rparr>)"
  by (simp add: ProcessPoolExecutorSession_submit_def submit_all_live)

text \<open>The futures of one \<open>submit\<close> are pairwise different.\<close>

lemma submit_distinct:
  assumes "ProcessPoolExecutorSession_submit self task = (Inr futures, self')"
  shows "distinct futures"
proof -
  obtain pool' where
    "submit_all (nat (n_workers self)) (mpi_pool self) task = (Inr futures, pool')"
    using assms by (auto simp: ProcessPoolExecutorSession_submit_def split: prod.splits)
  then have "distinct (map job_id futures)"
    by (simp add: submit_all_job_ids)
  then show ?thesis
    by (simp add: distinct_map)
qed

lemma init_ok:
  "1 \<le> N \<Longrightarrow> ProcessPoolExecutorSession_init N =
     Inr \<lparr>n_workers = N,
          mpi_pool = \<lparr>max_workers = N, work_items = [], shutdown_called = False\<rparr>\<rparr>"
  by (simp add: ProcessPoolExecutorSession_init_def ProcessPoolExecutor_init_def)

text \<open>After \<open>shutdown()\<close> the pool takes no more work: \<open>submit\<close> raises at its first item.\<close>

lemma submit_after_shutdown:
  assumes "1 \<le> n_workers self"
  shows "\<exists>e self'. ProcessPoolExecutorSession_submit (ProcessPoolExecutorSession_shutdown self) task
           = (Inl e, self') \<and> exn_class e = RuntimeError"
proof -
  from assms obtain k where k: "nat (n_workers self) = Suc k"
    by (cases "nat (n_workers self)") auto
  show ?thesis
    by (simp add: ProcessPoolExecutorSession_submit_def ProcessPoolExecutorSession_shutdown_def
          ProcessPoolExecutor_shutdown_def ProcessPoolExecutor_submit_def k)
qed


lemma results_first_failure:
  "i < length fs \<Longrightarrow> \<forall>j<i. \<exists>r. w (fs ! j) = Inr r \<Longrightarrow> w (fs ! i) = Inl e \<Longrightarrow>
   results w fs = (Inl e, take (Suc i) fs)"
proof (induction fs arbitrary: i)
  case Nil
  then show ?case by simp
next
  case (Cons f fs)
  show ?case
  proof (cases i)
    case 0
    with Cons.prems show ?thesis by simp
  next
    case (Suc i')
    from Cons.prems Suc obtain r where r: "w f = Inr r" by auto
    have "results w fs = (Inl e, take (Suc i') fs)"
    proof (rule Cons.IH)
      show "i' < length fs" using Cons.prems Suc by simp
      show "\<forall>j<i'. \<exists>r. w (fs ! j) = Inr r"
        using Cons.prems(2) Suc by (metis Suc_less_eq nth_Cons_Suc)
      show "w (fs ! i') = Inl e" using Cons.prems(3) Suc by simp
    qed
    then show ?thesis using r Suc by simp
  qed
qed

lemma not_in_take:
  assumes "distinct fs" "i < k" "k < length fs"
  shows "fs ! k \<notin> set (take (Suc i) fs)"
proof
  assume "fs ! k \<in> set (take (Suc i) fs)"
  then obtain j where j: "j < length (take (Suc i) fs)" "take (Suc i) fs ! j = fs ! k"
    by (auto simp: in_set_conv_nth)
  then have "j \<le> i" "fs ! j = fs ! k" by auto
  with assms show False
    by (metis distinct_conv_nth le_less_trans less_imp_not_eq less_trans)
qed


lemma three_workers_init: "ProcessPoolExecutorSession_init 3 = Inr three_workers"
  by (simp add: ProcessPoolExecutorSession_init_def ProcessPoolExecutor_init_def
        three_workers_def)

lemma three_workers_submit:
  "ProcessPoolExecutorSession_submit three_workers () =
     (Inr [Future 0 (), Future 1 (), Future 2 ()],
      three_workers\<lparr>mpi_pool := (mpi_pool three_workers)\<lparr>work_items := [(), (), ()]\<rparr>\<rparr>)"
  by (simp add: submit_live three_workers_def upt_rec numeral_3_eq_3)

text \<open>
  C1, as the claim states it: when one worker's future raises during \<open>submit_sync\<close>, the
  call still resolves the future of every other worker and loses no result. With three
  workers of which the second raises this fails: \<open>submit_sync\<close> raises the second
  worker's exception after calling \<open>result()\<close> on the first two futures only; the third
  future is not among those it resolved, and the first worker's result is not returned.
\<close>

theorem submit_sync_leaves_later_futures:
  "ProcessPoolExecutorSession_init 3 = Inr three_workers
   \<and> fst (ProcessPoolExecutorSession_submit three_workers ())
       = Inr [Future 0 (), Future 1 (), Future 2 ()]
   \<and> fst (ProcessPoolExecutorSession_submit_sync second_worker_raises three_workers ())
       = Inl (Exn RuntimeError ''worker 2 failed'')
   \<and> fst (snd (ProcessPoolExecutorSession_submit_sync second_worker_raises three_workers ()))
       = [Future 0 (), Future 1 ()]
   \<and> Future 2 () \<notin> set (fst (snd
        (ProcessPoolExecutorSession_submit_sync second_worker_raises three_workers ())))"
  by (simp add: ProcessPoolExecutorSession_submit_sync_def three_workers_submit
        three_workers_init second_worker_raises_def)

text \<open>
  C1, amended: \<open>submit_sync\<close> calls \<open>result()\<close> on the futures in worker order. When
  worker \<open>i\<close> is the first whose future raises, the call raises that worker's exception,
  having resolved the futures of the workers up to and including \<open>i\<close>; it resolves no
  future of a later worker.
\<close>

theorem submit_sync_stops_at_first_failure:
  assumes "ProcessPoolExecutorSession_submit self task = (Inr futures, self')"
    and "i < length futures"
    and "\<forall>j<i. \<exists>r. w (futures ! j) = Inr r"
    and "w (futures ! i) = Inl e"
  shows "ProcessPoolExecutorSession_submit_sync w self task = (Inl e, take (Suc i) futures, self')
       \<and> (\<forall>k. i < k \<and> k < length futures \<longrightarrow> futures ! k \<notin> set (take (Suc i) futures))"
proof
  show "ProcessPoolExecutorSession_submit_sync w self task = (Inl e, take (Suc i) futures, self')"
    using assms
    by (simp add: ProcessPoolExecutorSession_submit_sync_def results_first_failure)
  show "\<forall>k. i < k \<and> k < length futures \<longrightarrow> futures ! k \<notin> set (take (Suc i) futures)"
  proof (intro allI impI)
    fix k
    assume "i < k \<and> k < length futures"
    then show "futures ! k \<notin> set (take (Suc i) futures)"
      using not_in_take [OF submit_distinct [OF assms(1)], of i k] by simp
  qed
qed

text \<open>Three workers, the second of which raises: \<open>i = 1\<close>.\<close>

theorem submit_sync_stops_at_first_failure_witness:
  "ProcessPoolExecutorSession_submit three_workers () =
     (Inr [Future 0 (), Future 1 (), Future 2 ()],
      three_workers\<lparr>mpi_pool := (mpi_pool three_workers)\<lparr>work_items := [(), (), ()]\<rparr>\<rparr>)
   \<and> second_worker_raises ([Future 0 (), Future 1 (), Future 2 ()] ! 0) = Inr 0
   \<and> second_worker_raises ([Future 0 (), Future 1 (), Future 2 ()] ! 1)
       = Inl (Exn RuntimeError ''worker 2 failed'')
   \<and> ProcessPoolExecutorSession_submit_sync second_worker_raises three_workers () =
     (Inl (Exn RuntimeError ''worker 2 failed''), [Future 0 (), Future 1 ()],
      three_workers\<lparr>mpi_pool := (mpi_pool three_workers)\<lparr>work_items := [(), (), ()]\<rparr>\<rparr>)
   \<and> Future 2 () \<notin> set [Future 0 (), Future 1 ()]"
  using submit_sync_stops_at_first_failure [OF three_workers_submit, of 1 second_worker_raises
      "Exn RuntimeError ''worker 2 failed''"]
  by (simp add: second_worker_raises_def three_workers_submit)



end
